theory Spec2Isabelle
  imports Complex_Main "HOL-Library.Sublist"
begin

section \<open>Text: Python \<open>str\<close> values\<close>

text \<open>
  A Python \<open>str\<close> is a sequence of Unicode code points, so it is modelled as a list of
  natural numbers, one per code point (not as bytes: \<open>len\<close>, \<open>in\<close> and \<open>lower\<close> all work
  on code points). \<open>ascii\<close> reads an ASCII literal; the accented letters of the catalog
  are written by their code point: U+00ED (i acute), U+00E1 (a acute), U+00E7 (c cedilla),
  U+00E3 (a tilde), U+00EA (e circumflex), U+00FA (u acute), U+00F4 (o circumflex),
  U+00D4 (O circumflex) and U+00C1 (A acute). The source file stores each of them
  precomposed, as the two UTF-8 bytes of that one code point.
\<close>

type_synonym str = "nat list"

definition ascii :: "string \<Rightarrow> str" where
  "ascii cs = map of_char cs"

text \<open>
  \<open>str.lower()\<close>. Below U+0100 (Basic Latin and Latin-1 Supplement) the Unicode lower-case
  mapping sends \<open>A..Z\<close> and U+00C0..U+00DE, the multiplication sign U+00D7 apart, to the code
  point 32 above, and leaves every other code point alone; on a string made of such code
  points CPython maps code point by code point. The mapping of the rest of Unicode (with
  its context rule for the final sigma) is a table of the Python runtime, not of this
  repository: it is the parameter \<open>unicode_lower\<close>, about which nothing is assumed.
\<close>

definition lower_latin1 :: "nat \<Rightarrow> nat" where
  "lower_latin1 c =
     (if (0x41 \<le> c \<and> c \<le> 0x5A) \<or> (0xC0 \<le> c \<and> c \<le> 0xDE \<and> c \<noteq> 0xD7)
      then c + 0x20 else c)"

definition lower :: "(str \<Rightarrow> str) \<Rightarrow> str \<Rightarrow> str" where
  "lower unicode_lower s =
     (if list_all (\<lambda>c. c < 0x100) s then map lower_latin1 s else unicode_lower s)"

text \<open>
  \<open>needle in hay\<close> on two \<open>str\<close> values: \<open>needle\<close> occurs in \<open>hay\<close> as a contiguous run
  of code points. \<open>str_in\<close> tries every start position from the left.
\<close>

fun startswith :: "str \<Rightarrow> str \<Rightarrow> bool" where
  "startswith hay [] = True"
| "startswith [] (c # cs) = False"
| "startswith (h # hs) (c # cs) = (h = c \<and> startswith hs cs)"

fun str_in :: "str \<Rightarrow> str \<Rightarrow> bool" where
  "str_in needle [] = (needle = [])"
| "str_in needle (h # hs) = (startswith (h # hs) needle \<or> str_in needle hs)"

section \<open>The product records and the catalog\<close>

text \<open>
  Each element of \<open>MOCK_PRODUCTS\<close> is a dict with the same eight keys, so a product is a
  record with one field per key. The keys \<open>"id"\<close> and \<open>"image"\<close> are the fields \<open>id_field\<close>
  and \<open>image_field\<close>, since \<open>id\<close> and \<open>image\<close> are constants of HOL. \<open>id\<close> and \<open>reviews\<close> are
  Python integers. \<open>price\<close> and \<open>rating\<close> are float literals: the field holds the value of
  the decimal literal as written. Python stores the nearest double, and rounding to
  nearest is monotone, so an order comparison of such a field with a number that is itself
  a double (0 and 5 are) has the same outcome on the stored value.
\<close>

record product =
  id_field :: int
  name :: str
  description :: str
  price :: real
  category :: str
  image_field :: str
  rating :: real
  reviews :: int

definition product_1 :: product where
  "product_1 = \<lparr>
     id_field = 1,
     name = ascii ''Whey Protein Premium'',
     description = ascii ''Prote'' @ [0xED] @ ascii ''na de alta qualidade para ganho de massa muscular'',
     price = 89.99,
     category = ascii ''Prote'' @ [0xED] @ ascii ''nas'',
     image_field = ascii ''https://via.placeholder.com/300x200/4CAF50/white?text=Whey+Protein'',
     rating = 4.8,
     reviews = 245 \<rparr>"

definition product_2 :: product where
  "product_2 = \<lparr>
     id_field = 2,
     name = ascii ''BCAA 2:1:1'',
     description = ascii ''Amino'' @ [0xE1] @ ascii ''cidos essenciais para recupera'' @ [0xE7, 0xE3]
       @ ascii ''o muscular'',
     price = 45.99,
     category = ascii ''Amino'' @ [0xE1] @ ascii ''cidos'',
     image_field = ascii ''https://via.placeholder.com/300x200/2196F3/white?text=BCAA'',
     rating = 4.6,
     reviews = 189 \<rparr>"

definition product_3 :: product where
  "product_3 = \<lparr>
     id_field = 3,
     name = ascii ''Creatina Monohidratada'',
     description = ascii ''Suplemento para for'' @ [0xE7] @ ascii ''a e resist'' @ [0xEA]
       @ ascii ''ncia muscular'',
     price = 35.99,
     category = ascii ''Creatina'',
     image_field = ascii ''https://via.placeholder.com/300x200/FF9800/white?text=Creatina'',
     rating = 4.9,
     reviews = 312 \<rparr>"

definition product_4 :: product where
  "product_4 = \<lparr>
     id_field = 4,
     name = ascii ''Multivitam'' @ [0xED] @ ascii ''nico Premium'',
     description = ascii ''Complexo vitam'' @ [0xED] @ ascii ''nico completo para sa'' @ [0xFA]
       @ ascii ''de geral'',
     price = 55.99,
     category = ascii ''Vitaminas'',
     image_field = ascii ''https://via.placeholder.com/300x200/9C27B0/white?text=Vitaminas'',
     rating = 4.7,
     reviews = 156 \<rparr>"

definition product_5 :: product where
  "product_5 = \<lparr>
     id_field = 5,
     name = [0xD4] @ ascii ''mega 3 Ultra'',
     description = [0xC1] @ ascii ''cidos graxos essenciais para sa'' @ [0xFA]
       @ ascii ''de cardiovascular'',
     price = 42.99,
     category = [0xD4] @ ascii ''megas'',
     image_field = ascii ''https://via.placeholder.com/300x200/00BCD4/white?text=Omega+3'',
     rating = 4.5,
     reviews = 98 \<rparr>"

definition product_6 :: product where
  "product_6 = \<lparr>
     id_field = 6,
     name = ascii ''Notebook Gamer Alto Desempenho'',
     description = ascii ''Notebook para jogos e trabalho pesado'',
     price = 2899.99,
     category = ascii ''Eletr'' @ [0xF4] @ ascii ''nicos'',
     image_field = ascii ''https://via.placeholder.com/300x200/607D8B/white?text=Notebook'',
     rating = 4.4,
     reviews = 67 \<rparr>"

text \<open>The module-level list, in the order of the literal.\<close>

definition MOCK_PRODUCTS :: "product list" where
  "MOCK_PRODUCTS = [product_1, product_2, product_3, product_4, product_5, product_6]"

section \<open>The handlers\<close>

text \<open>
  A handler returns a dict whose keys are fixed ASCII literals: an association list from
  the key to a value of the types that occur. \<open>MOCK_PRODUCTS\<close> is a mutable module-level
  list that every handler reads, so a handler takes the list as the state and returns it
  with its result. No handler has a \<open>raise\<close> or an operation that can fail on a \<open>str\<close>, an
  \<open>int\<close> or a dict that has the eight keys, so the result has no exception branch.
\<close>

datatype pyval =
  VBool bool
| VInt int
| VStr str
| VStrs "str list"
| VProduct product
| VProducts "product list"

type_synonym response = "(string \<times> pyval) list"

text \<open>
  The loop of \<open>search_products\<close>: \<open>filtered_products\<close> is the accumulator, and
  \<open>append\<close> adds at the end.
\<close>

fun search_loop :: "(str \<Rightarrow> str) \<Rightarrow> str \<Rightarrow> product list \<Rightarrow> product list \<Rightarrow> product list" where
  "search_loop unicode_lower query_lower [] filtered_products = filtered_products"
| "search_loop unicode_lower query_lower (product # rest) filtered_products =
     (if str_in query_lower (lower unicode_lower (name product)) \<or>
         str_in query_lower (lower unicode_lower (description product)) \<or>
         str_in query_lower (lower unicode_lower (category product))
      then search_loop unicode_lower query_lower rest (filtered_products @ [product])
      else search_loop unicode_lower query_lower rest filtered_products)"

text \<open>
  \<open>query\<close> is \<open>Optional[str]\<close>, with default \<open>None\<close>; \<open>not query\<close> holds of \<open>None\<close> and of
  the empty string, and of no other string, so the failure dict is returned in those two
  cases; in the third, \<open>q\<close> is the string that \<open>query\<close> holds.
\<close>

definition search_products ::
    "(str \<Rightarrow> str) \<Rightarrow> str option \<Rightarrow> product list \<Rightarrow> response \<times> product list" where
  "search_products unicode_lower query products =
     (case query of
        None \<Rightarrow>
          ([(''success'', VBool False),
            (''message'', VStr (ascii ''Query parameter is required'')),
            (''products'', VProducts [])], products)
      | Some q \<Rightarrow>
          if q = [] then
            ([(''success'', VBool False),
              (''message'', VStr (ascii ''Query parameter is required'')),
              (''products'', VProducts [])], products)
          else
            let query_lower = lower unicode_lower q;
                filtered_products = search_loop unicode_lower query_lower products []
            in ([(''success'', VBool True),
                 (''query'', VStr q),
                 (''total'', VInt (int (length filtered_products))),
                 (''products'', VProducts filtered_products)], products))"

text \<open>
  \<open>next((p for p in MOCK_PRODUCTS if p["id"] == product_id), None)\<close> is the first product
  with that id, or \<open>None\<close>. \<open>not product\<close> holds of \<open>None\<close> and of an empty dict; a product
  has eight keys, so only \<open>None\<close> takes the failure branch.
\<close>

definition get_product :: "int \<Rightarrow> product list \<Rightarrow> response \<times> product list" where
  "get_product product_id products =
     (case find (\<lambda>p. id_field p = product_id) products of
        None \<Rightarrow>
          ([(''success'', VBool False), (''message'', VStr (ascii ''Product not found''))],
           products)
      | Some product \<Rightarrow>
          ([(''success'', VBool True), (''product'', VProduct product)], products))"

text \<open>
  \<open>list(set(...))\<close>: the set holds each category once, and \<open>list\<close> walks it in the set's
  iteration order, which depends on the string hashes (salted per process) and is not
  fixed by the language. \<open>list_of_set S xs\<close> says that \<open>xs\<close> is one of the lists \<open>list(S)\<close>
  may return: each element of \<open>S\<close> once, in some order. So \<open>get_categories\<close> is a relation
  between the state and the results it may return.
\<close>

definition list_of_set :: "'a set \<Rightarrow> 'a list \<Rightarrow> bool" where
  "list_of_set S xs = (distinct xs \<and> set xs = S)"

inductive get_categories :: "product list \<Rightarrow> response \<times> product list \<Rightarrow> bool" where
  "list_of_set (set (map category products)) categories \<Longrightarrow>
   get_categories products
     ([(''success'', VBool True), (''categories'', VStrs categories)], products)"

code_pred (modes: i \<Rightarrow> i \<Rightarrow> bool) get_categories .

section \<open>Auxiliary facts\<close>

lemma startswith_iff: "startswith hay needle = (\<exists>post. hay = needle @ post)"
  by (induction hay needle rule: startswith.induct) auto

lemma str_in_iff: "str_in needle hay = (\<exists>pre post. hay = pre @ needle @ post)"
proof (induction hay)
  case Nil
  then show ?case by auto
next
  case (Cons h hs)
  show ?case
  proof
    assume "str_in needle (h # hs)"
    then consider "startswith (h # hs) needle" | "str_in needle hs" by auto
    then show "\<exists>pre post. h # hs = pre @ needle @ post"
    proof cases
      case 1
      then obtain post where "h # hs = needle @ post" by (auto simp: startswith_iff)
      then have "h # hs = [] @ needle @ post" by simp
      then show ?thesis by blast
    next
      case 2
      then obtain pre post where "hs = pre @ needle @ post" using Cons.IH by auto
      then have "h # hs = (h # pre) @ needle @ post" by simp
      then show ?thesis by blast
    qed
  next
    assume "\<exists>pre post. h # hs = pre @ needle @ post"
    then obtain pre post where eq: "h # hs = pre @ needle @ post" by blast
    show "str_in needle (h # hs)"
    proof (cases pre)
      case Nil
      with eq have "startswith (h # hs) needle" by (auto simp: startswith_iff)
      then show ?thesis by simp
    next
      case (Cons a pre')
      with eq have "hs = pre' @ needle @ post" by simp
      then have "str_in needle hs" using Cons.IH by blast
      then show ?thesis by simp
    qed
  qed
qed

lemma str_in_sublist: "str_in needle hay = sublist needle hay"
  by (simp add: str_in_iff sublist_def)

lemma search_loop_filter:
  "search_loop ul ql ps acc =
     acc @ filter (\<lambda>p. str_in ql (lower ul (name p)) \<or> str_in ql (lower ul (description p)) \<or>
                        str_in ql (lower ul (category p))) ps"
  by (induction ps arbitrary: acc) auto

lemma catalog_ids:
  "id_field product_1 = 1" "id_field product_2 = 2" "id_field product_3 = 3"
  "id_field product_4 = 4" "id_field product_5 = 5" "id_field product_6 = 6"
  by (simp_all add: product_1_def product_2_def product_3_def product_4_def product_5_def
      product_6_def)

lemma catalog_names:
  "name product_1 = ascii ''Whey Protein Premium''"
  "name product_2 = ascii ''BCAA 2:1:1''"
  "name product_3 = ascii ''Creatina Monohidratada''"
  "name product_4 = ascii ''Multivitam'' @ [0xED] @ ascii ''nico Premium''"
  "name product_5 = [0xD4] @ ascii ''mega 3 Ultra''"
  "name product_6 = ascii ''Notebook Gamer Alto Desempenho''"
  by (simp_all add: product_1_def product_2_def product_3_def product_4_def product_5_def
      product_6_def)

lemma catalog_descriptions:
  "description product_1 =
     ascii ''Prote'' @ [0xED] @ ascii ''na de alta qualidade para ganho de massa muscular''"
  "description product_2 =
     ascii ''Amino'' @ [0xE1] @ ascii ''cidos essenciais para recupera'' @ [0xE7, 0xE3]
       @ ascii ''o muscular''"
  "description product_3 =
     ascii ''Suplemento para for'' @ [0xE7] @ ascii ''a e resist'' @ [0xEA]
       @ ascii ''ncia muscular''"
  "description product_4 =
     ascii ''Complexo vitam'' @ [0xED] @ ascii ''nico completo para sa'' @ [0xFA]
       @ ascii ''de geral''"
  "description product_5 =
     [0xC1] @ ascii ''cidos graxos essenciais para sa'' @ [0xFA] @ ascii ''de cardiovascular''"
  "description product_6 = ascii ''Notebook para jogos e trabalho pesado''"
  by (simp_all add: product_1_def product_2_def product_3_def product_4_def product_5_def
      product_6_def)

lemma catalog_categories:
  "category product_1 = ascii ''Prote'' @ [0xED] @ ascii ''nas''"
  "category product_2 = ascii ''Amino'' @ [0xE1] @ ascii ''cidos''"
  "category product_3 = ascii ''Creatina''"
  "category product_4 = ascii ''Vitaminas''"
  "category product_5 = [0xD4] @ ascii ''megas''"
  "category product_6 = ascii ''Eletr'' @ [0xF4] @ ascii ''nicos''"
  by (simp_all add: product_1_def product_2_def product_3_def product_4_def product_5_def
      product_6_def)

lemmas eval_text = catalog_names catalog_descriptions catalog_categories
  lower_def lower_latin1_def ascii_def

lemma search_products_Some:
  "q \<noteq> [] \<Longrightarrow> search_products ul (Some q) ps =
     ([(''success'', VBool True), (''query'', VStr q),
       (''total'', VInt (int (length (search_loop ul (lower ul q) ps [])))),
       (''products'', VProducts (search_loop ul (lower ul q) ps []))], ps)"
  by (simp add: search_products_def Let_def)

lemma loop_protein:
  "search_loop ul (lower ul (ascii ''protein'')) MOCK_PRODUCTS [] = [product_1]"
  by (simp add: MOCK_PRODUCTS_def eval_text)

lemma loop_proteina:
  "search_loop ul (lower ul (ascii ''prote'' @ [0xED] @ ascii ''na'')) MOCK_PRODUCTS [] = [product_1]"
  by (simp add: MOCK_PRODUCTS_def eval_text)

lemma loop_space:
  "search_loop ul (lower ul [0x20]) MOCK_PRODUCTS [] = MOCK_PRODUCTS"
  by (simp add: MOCK_PRODUCTS_def eval_text)

lemma loop_two_spaces:
  "search_loop ul (lower ul [0x20, 0x20]) MOCK_PRODUCTS [] = []"
  by (simp add: MOCK_PRODUCTS_def eval_text)

lemma loop_omega:
  "search_loop ul (lower ul ([0xD4] @ ascii ''MEGA'')) MOCK_PRODUCTS [] = [product_5]"
  by (simp add: MOCK_PRODUCTS_def eval_text)

lemma find_id_distinct:
  "distinct (map id_field ps) \<Longrightarrow> P \<in> set ps \<Longrightarrow>
   find (\<lambda>p. id_field p = id_field P) ps = Some P"
proof (induction ps)
  case Nil
  then show ?case by simp
next
  case (Cons a ps)
  show ?case
  proof (cases "a = P")
    case True
    then show ?thesis by simp
  next
    case False
    with Cons.prems have mem: "P \<in> set ps" by simp
    with Cons.prems have "id_field a \<noteq> id_field P" by auto
    with Cons mem show ?thesis by simp
  qed
qed

lemma catalog_ids_distinct: "distinct (map id_field MOCK_PRODUCTS)"
  by (simp add: MOCK_PRODUCTS_def catalog_ids)

lemma find_id_absent:
  "product_id \<notin> set (map id_field ps) \<Longrightarrow> find (\<lambda>p. id_field p = product_id) ps = None"
  by (auto simp: find_None_iff)

lemma catalog_categories_distinct: "distinct (map category MOCK_PRODUCTS)"
  by (simp add: MOCK_PRODUCTS_def catalog_categories ascii_def)

lemma list_of_set_length:
  "list_of_set (set xs) ys \<Longrightarrow> distinct xs \<Longrightarrow> length ys = length xs"
proof -
  assume "list_of_set (set xs) ys" and dx: "distinct xs"
  then have dy: "distinct ys" and eq: "set ys = set xs"
    by (simp_all add: list_of_set_def)
  from dy have "length ys = card (set ys)" by (simp add: distinct_card)
  also from eq have "\<dots> = card (set xs)" by simp
  also from dx have "\<dots> = length xs" by (simp add: distinct_card)
  finally show ?thesis .
qed

lemma list_of_set_remdups: "list_of_set (set xs) (remdups xs)"
  by (simp add: list_of_set_def)

lemma search_products_state: "snd (search_products ul q ps) = ps"
  by (simp add: search_products_def Let_def split: option.split)

section \<open>Properties of the handlers\<close>

text \<open>
  C1. For every non-empty query string \<open>q\<close>, \<open>search_products(q)\<close> returns the dict with
  \<open>success\<close> true, \<open>query\<close> the string \<open>q\<close> as given, \<open>products\<close> the products of the
  list, in the order of the list, for which \<open>q\<close> lower-cased is a substring (\<open>sublist\<close>) of
  the lower-cased name, description or category, and \<open>total\<close> the length of that list of
  products. It holds for any content of the module's list, so for the catalog, and
  whatever the runtime's lower-case table is outside Latin-1. The list is left as it was.
\<close>

theorem search_products_nonempty_query:
  assumes "q \<noteq> []"
  shows "search_products unicode_lower (Some q) products =
     ([(''success'', VBool True),
       (''query'', VStr q),
       (''total'', VInt (int (length
          (filter (\<lambda>P. sublist (lower unicode_lower q) (lower unicode_lower (name P)) \<or>
                        sublist (lower unicode_lower q) (lower unicode_lower (description P)) \<or>
                        sublist (lower unicode_lower q) (lower unicode_lower (category P)))
             products)))),
       (''products'', VProducts
          (filter (\<lambda>P. sublist (lower unicode_lower q) (lower unicode_lower (name P)) \<or>
                        sublist (lower unicode_lower q) (lower unicode_lower (description P)) \<or>
                        sublist (lower unicode_lower q) (lower unicode_lower (category P)))
             products))],
      products)"
  using assms by (simp add: search_products_Some search_loop_filter str_in_sublist)

theorem search_products_nonempty_query_witness:
  "[0xD4] @ ascii ''MEGA'' \<noteq> [] \<and>
   (\<forall>unicode_lower. search_products unicode_lower (Some ([0xD4] @ ascii ''MEGA'')) MOCK_PRODUCTS =
     ([(''success'', VBool True),
       (''query'', VStr ([0xD4] @ ascii ''MEGA'')),
       (''total'', VInt 1),
       (''products'', VProducts [product_5])], MOCK_PRODUCTS))"
proof -
  have ne: "[0xD4] @ ascii ''MEGA'' \<noteq> []" by simp
  have "search_products ul (Some ([0xD4] @ ascii ''MEGA'')) MOCK_PRODUCTS =
     ([(''success'', VBool True),
       (''query'', VStr ([0xD4] @ ascii ''MEGA'')),
       (''total'', VInt 1),
       (''products'', VProducts [product_5])], MOCK_PRODUCTS)" for ul
    using search_products_nonempty_query [OF ne, of ul MOCK_PRODUCTS] loop_omega [of ul]
    by (simp add: search_loop_filter str_in_sublist)
  with ne show ?thesis by blast
qed

text \<open>
  C2. For every product \<open>P\<close> of the catalog, \<open>get_product(P["id"])\<close> returns \<open>success\<close> true
  with the product \<open>P\<close> itself; \<open>get_product(3)\<close> returns \<open>success\<close> true with the third
  product, whose name is "Creatina Monohidratada".
\<close>

theorem get_product_of_catalog:
  "(\<forall>P \<in> set MOCK_PRODUCTS.
      get_product (id_field P) MOCK_PRODUCTS =
        ([(''success'', VBool True), (''product'', VProduct P)], MOCK_PRODUCTS)) \<and>
   get_product 3 MOCK_PRODUCTS =
     ([(''success'', VBool True), (''product'', VProduct product_3)], MOCK_PRODUCTS) \<and>
   name product_3 = ascii ''Creatina Monohidratada''"
proof -
  have all: "get_product (id_field P) MOCK_PRODUCTS =
        ([(''success'', VBool True), (''product'', VProduct P)], MOCK_PRODUCTS)"
    if "P \<in> set MOCK_PRODUCTS" for P
    using find_id_distinct [OF catalog_ids_distinct that] by (simp add: get_product_def)
  have "product_3 \<in> set MOCK_PRODUCTS" by (simp add: MOCK_PRODUCTS_def)
  from all [OF this] have "get_product 3 MOCK_PRODUCTS =
     ([(''success'', VBool True), (''product'', VProduct product_3)], MOCK_PRODUCTS)"
    by (simp add: catalog_ids)
  with all show ?thesis by (simp add: catalog_names)
qed

theorem get_product_of_catalog_witness:
  "product_5 \<in> set MOCK_PRODUCTS \<and>
   get_product 5 MOCK_PRODUCTS =
     ([(''success'', VBool True), (''product'', VProduct product_5)], MOCK_PRODUCTS)"
proof -
  have mem: "product_5 \<in> set MOCK_PRODUCTS" by (simp add: MOCK_PRODUCTS_def)
  from get_product_of_catalog mem
  have "get_product (id_field product_5) MOCK_PRODUCTS =
     ([(''success'', VBool True), (''product'', VProduct product_5)], MOCK_PRODUCTS)"
    by blast
  with mem show ?thesis by (simp add: catalog_ids)
qed

text \<open>
  C3. With the query absent (\<open>None\<close>) and with the empty string, \<open>search_products\<close> returns
  the dict with \<open>success\<close> false, the message "Query parameter is required" and an empty
  \<open>products\<close> list. It is a returned dict: the handler has no other kind of outcome.
\<close>

theorem search_products_query_missing:
  "search_products unicode_lower None products =
     ([(''success'', VBool False),
       (''message'', VStr (ascii ''Query parameter is required'')),
       (''products'', VProducts [])], products) \<and>
   search_products unicode_lower (Some []) products =
     ([(''success'', VBool False),
       (''message'', VStr (ascii ''Query parameter is required'')),
       (''products'', VProducts [])], products)"
  by (simp add: search_products_def)

text \<open>
  C4. For every integer that is the id of no product of the list, \<open>get_product\<close> returns
  the dict with \<open>success\<close> false and the message "Product not found", as a returned value;
  \<open>get_product(999)\<close> on the catalog returns exactly that dict.
\<close>

theorem get_product_unknown_id:
  "(product_id \<notin> set (map id_field products) \<longrightarrow>
      get_product product_id products =
        ([(''success'', VBool False), (''message'', VStr (ascii ''Product not found''))],
         products)) \<and>
   get_product 999 MOCK_PRODUCTS =
     ([(''success'', VBool False), (''message'', VStr (ascii ''Product not found''))],
      MOCK_PRODUCTS)"
proof -
  have gen: "get_product i ps =
      ([(''success'', VBool False), (''message'', VStr (ascii ''Product not found''))], ps)"
    if "i \<notin> set (map id_field ps)" for i ps
    using find_id_absent [OF that] by (simp add: get_product_def)
  have "999 \<notin> set (map id_field MOCK_PRODUCTS)"
    by (simp add: MOCK_PRODUCTS_def catalog_ids)
  from gen [OF this] gen show ?thesis by blast
qed

theorem get_product_unknown_id_witness:
  "- 1 \<notin> set (map id_field MOCK_PRODUCTS) \<and>
   get_product (- 1) MOCK_PRODUCTS =
     ([(''success'', VBool False), (''message'', VStr (ascii ''Product not found''))],
      MOCK_PRODUCTS)"
proof -
  have absent: "- 1 \<notin> set (map id_field MOCK_PRODUCTS)"
    by (simp add: MOCK_PRODUCTS_def catalog_ids)
  with get_product_unknown_id [of "- 1" MOCK_PRODUCTS] show ?thesis by blast
qed

text \<open>
  C5. \<open>get_categories\<close> returns (it has a result on every list), and every result is the
  dict with \<open>success\<close> true and a list of categories that has no duplicates, each element
  of which is the category of some product, and in which the category of every product
  occurs; on the catalog that list has exactly 6 elements. The order is not determined:
  on the catalog, the categories in the order of the products and in the reverse order
  are both possible results, and they differ.
\<close>

theorem get_categories_result:
  "(\<exists>r. get_categories products r) \<and>
   (\<forall>r. get_categories products r \<longrightarrow>
      (\<exists>categories.
         r = ([(''success'', VBool True), (''categories'', VStrs categories)], products) \<and>
         distinct categories \<and>
         (\<forall>c \<in> set categories. \<exists>P \<in> set products. category P = c) \<and>
         (\<forall>P \<in> set products. category P \<in> set categories) \<and>
         (products = MOCK_PRODUCTS \<longrightarrow> length categories = 6))) \<and>
   get_categories MOCK_PRODUCTS
     ([(''success'', VBool True), (''categories'', VStrs (map category MOCK_PRODUCTS))],
      MOCK_PRODUCTS) \<and>
   get_categories MOCK_PRODUCTS
     ([(''success'', VBool True), (''categories'', VStrs (rev (map category MOCK_PRODUCTS)))],
      MOCK_PRODUCTS) \<and>
   map category MOCK_PRODUCTS \<noteq> rev (map category MOCK_PRODUCTS)"
proof -
  have ex: "\<exists>r. get_categories products r"
    using get_categories.intros [OF list_of_set_remdups] by blast
  have every: "\<exists>categories.
         r = ([(''success'', VBool True), (''categories'', VStrs categories)], products) \<and>
         distinct categories \<and>
         (\<forall>c \<in> set categories. \<exists>P \<in> set products. category P = c) \<and>
         (\<forall>P \<in> set products. category P \<in> set categories) \<and>
         (products = MOCK_PRODUCTS \<longrightarrow> length categories = 6)"
    if "get_categories products r" for r
  proof -
    from that obtain cs where r: "r = ([(''success'', VBool True), (''categories'', VStrs cs)], products)"
      and cs: "list_of_set (set (map category products)) cs"
      by (auto elim: get_categories.cases)
    from cs have d: "distinct cs" and s: "set cs = category ` set products"
      by (simp_all add: list_of_set_def)
    have six: "length cs = 6" if "products = MOCK_PRODUCTS"
      using list_of_set_length [OF cs] catalog_categories_distinct that
      by (simp add: MOCK_PRODUCTS_def)
    from r d s six show ?thesis by auto
  qed
  have fwd: "get_categories MOCK_PRODUCTS
     ([(''success'', VBool True), (''categories'', VStrs (map category MOCK_PRODUCTS))],
      MOCK_PRODUCTS)"
    using catalog_categories_distinct by (intro get_categories.intros) (simp add: list_of_set_def)
  have bwd: "get_categories MOCK_PRODUCTS
     ([(''success'', VBool True), (''categories'', VStrs (rev (map category MOCK_PRODUCTS)))],
      MOCK_PRODUCTS)"
    using catalog_categories_distinct by (intro get_categories.intros) (simp add: list_of_set_def)
  have ne: "map category MOCK_PRODUCTS \<noteq> rev (map category MOCK_PRODUCTS)"
    by (simp add: MOCK_PRODUCTS_def catalog_categories ascii_def)
  show ?thesis
  proof (intro conjI allI impI)
    show "\<exists>r. get_categories products r" by (rule ex)
  next
    fix r
    assume "get_categories products r"
    then show "\<exists>categories.
         r = ([(''success'', VBool True), (''categories'', VStrs categories)], products) \<and>
         distinct categories \<and>
         (\<forall>c \<in> set categories. \<exists>P \<in> set products. category P = c) \<and>
         (\<forall>P \<in> set products. category P \<in> set categories) \<and>
         (products = MOCK_PRODUCTS \<longrightarrow> length categories = 6)"
      by (rule every)
  next
    show "map category MOCK_PRODUCTS \<noteq> rev (map category MOCK_PRODUCTS)" by (rule ne)
  qed (rule fwd, rule bwd)
qed

theorem get_categories_result_witness:
  "get_categories MOCK_PRODUCTS
     ([(''success'', VBool True),
       (''categories'', VStrs [category product_3, category product_6, category product_1,
                               category product_5, category product_2, category product_4])],
      MOCK_PRODUCTS) \<and>
   length [category product_3, category product_6, category product_1,
           category product_5, category product_2, category product_4] = 6 \<and>
   distinct [category product_3, category product_6, category product_1,
             category product_5, category product_2, category product_4]"
proof -
  let ?cs = "[category product_3, category product_6, category product_1,
              category product_5, category product_2, category product_4]"
  have d: "distinct ?cs"
    by (simp add: catalog_categories ascii_def)
  have "set ?cs = set (map category MOCK_PRODUCTS)"
    by (auto simp: MOCK_PRODUCTS_def)
  with d have "list_of_set (set (map category MOCK_PRODUCTS)) ?cs"
    by (simp only: list_of_set_def)
  then have run: "get_categories MOCK_PRODUCTS
     ([(''success'', VBool True), (''categories'', VStrs ?cs)], MOCK_PRODUCTS)"
    by (rule get_categories.intros)
  from get_categories_result [of MOCK_PRODUCTS]
  have "\<forall>r. get_categories MOCK_PRODUCTS r \<longrightarrow>
      (\<exists>categories.
         r = ([(''success'', VBool True), (''categories'', VStrs categories)], MOCK_PRODUCTS) \<and>
         distinct categories \<and>
         (\<forall>c \<in> set categories. \<exists>P \<in> set MOCK_PRODUCTS. category P = c) \<and>
         (\<forall>P \<in> set MOCK_PRODUCTS. category P \<in> set categories) \<and>
         (MOCK_PRODUCTS = MOCK_PRODUCTS \<longrightarrow> length categories = 6))"
    by (elim conjE)
  with run have "\<exists>categories.
      ([(''success'', VBool True), (''categories'', VStrs ?cs)], MOCK_PRODUCTS) =
      ([(''success'', VBool True), (''categories'', VStrs categories)], MOCK_PRODUCTS) \<and>
      distinct categories \<and> length categories = 6"
    by blast
  then have "distinct ?cs \<and> length ?cs = 6" by simp
  with run show ?thesis by blast
qed

text \<open>
  C6. On the catalog, \<open>search_products("protein")\<close> returns \<open>success\<close> true, \<open>total\<close> 1 and the
  one product "Whey Protein Premium", whose lower-cased name contains the query; with
  the query "proteina" (i acute, U+00ED) it returns \<open>total\<close> 1 and the same product, whose
  lower-cased description contains the query and whose name does not.
\<close>

theorem search_products_protein:
  "search_products unicode_lower (Some (ascii ''protein'')) MOCK_PRODUCTS =
     ([(''success'', VBool True),
       (''query'', VStr (ascii ''protein'')),
       (''total'', VInt 1),
       (''products'', VProducts [product_1])], MOCK_PRODUCTS) \<and>
   name product_1 = ascii ''Whey Protein Premium'' \<and>
   str_in (lower unicode_lower (ascii ''protein'')) (lower unicode_lower (name product_1)) \<and>
   search_products unicode_lower (Some (ascii ''prote'' @ [0xED] @ ascii ''na'')) MOCK_PRODUCTS =
     ([(''success'', VBool True),
       (''query'', VStr (ascii ''prote'' @ [0xED] @ ascii ''na'')),
       (''total'', VInt 1),
       (''products'', VProducts [product_1])], MOCK_PRODUCTS) \<and>
   str_in (lower unicode_lower (ascii ''prote'' @ [0xED] @ ascii ''na''))
     (lower unicode_lower (description product_1)) \<and>
   \<not> str_in (lower unicode_lower (ascii ''prote'' @ [0xED] @ ascii ''na''))
     (lower unicode_lower (name product_1))"
proof -
  have ne1: "ascii ''protein'' \<noteq> []" by (simp add: ascii_def)
  have ne2: "ascii ''prote'' @ [0xED] @ ascii ''na'' \<noteq> []" by simp
  have a: "search_products unicode_lower (Some (ascii ''protein'')) MOCK_PRODUCTS =
     ([(''success'', VBool True),
       (''query'', VStr (ascii ''protein'')),
       (''total'', VInt 1),
       (''products'', VProducts [product_1])], MOCK_PRODUCTS)"
    unfolding search_products_Some [OF ne1] loop_protein by simp
  have b: "search_products unicode_lower (Some (ascii ''prote'' @ [0xED] @ ascii ''na'')) MOCK_PRODUCTS =
     ([(''success'', VBool True),
       (''query'', VStr (ascii ''prote'' @ [0xED] @ ascii ''na'')),
       (''total'', VInt 1),
       (''products'', VProducts [product_1])], MOCK_PRODUCTS)"
    unfolding search_products_Some [OF ne2] loop_proteina by simp
  have c: "str_in (lower unicode_lower (ascii ''protein'')) (lower unicode_lower (name product_1))"
    by (simp add: eval_text)
  have d: "str_in (lower unicode_lower (ascii ''prote'' @ [0xED] @ ascii ''na''))
     (lower unicode_lower (description product_1))"
    by (simp add: eval_text)
  have e: "\<not> str_in (lower unicode_lower (ascii ''prote'' @ [0xED] @ ascii ''na''))
     (lower unicode_lower (name product_1))"
    by (simp add: eval_text)
  from a b c d e show ?thesis by (simp add: catalog_names)
qed

text \<open>
  C7. Matching ignores case: for two non-empty queries \<open>q\<close> and \<open>q'\<close> with the same
  lower-casing, \<open>search_products(q)\<close> and \<open>search_products(q')\<close> return the same \<open>total\<close>
  and the same \<open>products\<close> list, both with \<open>success\<close> true; the two dicts differ at most
  in \<open>query\<close>, where each echoes its own string.
\<close>

theorem search_products_case_insensitive:
  assumes "q \<noteq> []" and "q' \<noteq> []"
    and "lower unicode_lower q = lower unicode_lower q'"
  shows "\<exists>total filtered_products.
     search_products unicode_lower (Some q) products =
       ([(''success'', VBool True), (''query'', VStr q), (''total'', VInt total),
         (''products'', VProducts filtered_products)], products) \<and>
     search_products unicode_lower (Some q') products =
       ([(''success'', VBool True), (''query'', VStr q'), (''total'', VInt total),
         (''products'', VProducts filtered_products)], products)"
  using assms by (simp add: search_products_Some)

theorem search_products_case_insensitive_witness:
  "ascii ''PROTEIN'' \<noteq> [] \<and> ascii ''protein'' \<noteq> [] \<and>
   lower (\<lambda>s. s) (ascii ''PROTEIN'') = lower (\<lambda>s. s) (ascii ''protein'') \<and>
   search_products (\<lambda>s. s) (Some (ascii ''PROTEIN'')) MOCK_PRODUCTS =
     ([(''success'', VBool True), (''query'', VStr (ascii ''PROTEIN'')), (''total'', VInt 1),
       (''products'', VProducts [product_1])], MOCK_PRODUCTS) \<and>
   search_products (\<lambda>s. s) (Some (ascii ''protein'')) MOCK_PRODUCTS =
     ([(''success'', VBool True), (''query'', VStr (ascii ''protein'')), (''total'', VInt 1),
       (''products'', VProducts [product_1])], MOCK_PRODUCTS)"
proof -
  have a: "ascii ''PROTEIN'' \<noteq> []" by (simp add: ascii_def)
  have b: "ascii ''protein'' \<noteq> []" by (simp add: ascii_def)
  have c: "lower (\<lambda>s. s) (ascii ''PROTEIN'') = lower (\<lambda>s. s) (ascii ''protein'')"
    by (simp add: lower_def lower_latin1_def ascii_def)
  from search_products_case_insensitive [OF a b c, of MOCK_PRODUCTS]
  obtain total filtered_products where
    upper: "search_products (\<lambda>s. s) (Some (ascii ''PROTEIN'')) MOCK_PRODUCTS =
       ([(''success'', VBool True), (''query'', VStr (ascii ''PROTEIN'')), (''total'', VInt total),
         (''products'', VProducts filtered_products)], MOCK_PRODUCTS)" and
    lower: "search_products (\<lambda>s. s) (Some (ascii ''protein'')) MOCK_PRODUCTS =
       ([(''success'', VBool True), (''query'', VStr (ascii ''protein'')), (''total'', VInt total),
         (''products'', VProducts filtered_products)], MOCK_PRODUCTS)"
    by blast
  have "search_products (\<lambda>s. s) (Some (ascii ''protein'')) MOCK_PRODUCTS =
       ([(''success'', VBool True), (''query'', VStr (ascii ''protein'')), (''total'', VInt 1),
         (''products'', VProducts [product_1])], MOCK_PRODUCTS)"
    unfolding search_products_Some [OF b] loop_protein by simp
  with lower have "total = 1" and "filtered_products = [product_1]" by simp_all
  with upper lower a b c show ?thesis by simp
qed

text \<open>
  C8. \<open>search_products\<close> leaves the module's list as it found it, for every query (\<open>None\<close>
  too), so a second call with the same query, made in the state the first one left,
  returns the same result; a call of \<open>get_product\<close> between the two changes nothing.
\<close>

theorem search_products_repeatable:
  "snd (search_products unicode_lower query products) = products \<and>
   search_products unicode_lower query (snd (search_products unicode_lower query products)) =
     search_products unicode_lower query products \<and>
   fst (search_products unicode_lower query
          (snd (get_product product_id (snd (search_products unicode_lower query products))))) =
     fst (search_products unicode_lower query products)"
proof -
  have "snd (get_product i ps) = ps" for i ps
    by (simp add: get_product_def split: option.split)
  then show ?thesis by (simp add: search_products_state)
qed

text \<open>
  C9. Every product of \<open>MOCK_PRODUCTS\<close> has a positive id, a non-empty name, a non-empty
  category, a price that is not negative, a rating between 0 and 5 and a review count that
  is not negative; the ids of the list are pairwise distinct. The id and the review
  count are integers by the type of their fields.
\<close>

theorem MOCK_PRODUCTS_invariants:
  "(\<forall>P \<in> set MOCK_PRODUCTS.
      0 < id_field P \<and> name P \<noteq> [] \<and> category P \<noteq> [] \<and> 0 \<le> price P \<and>
      0 \<le> rating P \<and> rating P \<le> 5 \<and> 0 \<le> reviews P) \<and>
   distinct (map id_field MOCK_PRODUCTS)"
proof -
  have "0 < id_field P \<and> name P \<noteq> [] \<and> category P \<noteq> [] \<and> 0 \<le> price P \<and>
      0 \<le> rating P \<and> rating P \<le> 5 \<and> 0 \<le> reviews P"
    if "P \<in> {product_1, product_2, product_3, product_4, product_5, product_6}" for P
    using that
    by (auto simp: product_1_def product_2_def product_3_def product_4_def product_5_def
        product_6_def ascii_def)
  then show ?thesis
    using catalog_ids_distinct by (simp add: MOCK_PRODUCTS_def)
qed

theorem MOCK_PRODUCTS_invariants_witness:
  "product_6 \<in> set MOCK_PRODUCTS \<and> id_field product_6 = 6 \<and> 0 < id_field product_6 \<and>
   name product_6 \<noteq> [] \<and> category product_6 \<noteq> [] \<and> price product_6 = 2899.99 \<and>
   0 \<le> price product_6 \<and> 0 \<le> rating product_6 \<and> rating product_6 \<le> 5 \<and>
   0 \<le> reviews product_6"
proof -
  have mem: "product_6 \<in> set MOCK_PRODUCTS" by (simp add: MOCK_PRODUCTS_def)
  with MOCK_PRODUCTS_invariants
  have "0 < id_field product_6 \<and> name product_6 \<noteq> [] \<and> category product_6 \<noteq> [] \<and>
      0 \<le> price product_6 \<and> 0 \<le> rating product_6 \<and> rating product_6 \<le> 5 \<and>
      0 \<le> reviews product_6"
    by blast
  moreover have "id_field product_6 = 6" and "price product_6 = 2899.99"
    by (simp_all add: product_6_def)
  ultimately show ?thesis using mem by simp
qed

text \<open>
  C10. A query is never trimmed: every non-empty query \<open>q\<close>, one made of white space
  too, takes the success branch, is echoed as given, and is matched whole (lower-cased)
  against the three lower-cased fields. A single space lower-cases to itself, and on the
  catalog \<open>search_products(" ")\<close> returns all six products, with \<open>total\<close> 6: the name of
  every product contains a space.
\<close>

theorem search_products_whitespace_query:
  "(q \<noteq> [] \<longrightarrow>
      search_products unicode_lower (Some q) products =
        ([(''success'', VBool True),
          (''query'', VStr q),
          (''total'', VInt (int (length
             (filter (\<lambda>P. str_in (lower unicode_lower q) (lower unicode_lower (name P)) \<or>
                           str_in (lower unicode_lower q) (lower unicode_lower (description P)) \<or>
                           str_in (lower unicode_lower q) (lower unicode_lower (category P)))
                products)))),
          (''products'', VProducts
             (filter (\<lambda>P. str_in (lower unicode_lower q) (lower unicode_lower (name P)) \<or>
                           str_in (lower unicode_lower q) (lower unicode_lower (description P)) \<or>
                           str_in (lower unicode_lower q) (lower unicode_lower (category P)))
                products))],
         products)) \<and>
   lower unicode_lower [0x20] = [0x20] \<and>
   search_products unicode_lower (Some [0x20]) MOCK_PRODUCTS =
     ([(''success'', VBool True),
       (''query'', VStr [0x20]),
       (''total'', VInt 6),
       (''products'', VProducts MOCK_PRODUCTS)], MOCK_PRODUCTS) \<and>
   (\<forall>P \<in> set MOCK_PRODUCTS. str_in [0x20] (name P))"
proof (intro conjI impI)
  assume "q \<noteq> []"
  then show "search_products unicode_lower (Some q) products =
        ([(''success'', VBool True),
          (''query'', VStr q),
          (''total'', VInt (int (length
             (filter (\<lambda>P. str_in (lower unicode_lower q) (lower unicode_lower (name P)) \<or>
                           str_in (lower unicode_lower q) (lower unicode_lower (description P)) \<or>
                           str_in (lower unicode_lower q) (lower unicode_lower (category P)))
                products)))),
          (''products'', VProducts
             (filter (\<lambda>P. str_in (lower unicode_lower q) (lower unicode_lower (name P)) \<or>
                           str_in (lower unicode_lower q) (lower unicode_lower (description P)) \<or>
                           str_in (lower unicode_lower q) (lower unicode_lower (category P)))
                products))],
         products)"
    by (simp add: search_products_Some search_loop_filter)
next
  show "lower unicode_lower [0x20] = [0x20]"
    by (simp add: lower_def lower_latin1_def)
next
  have "[0x20] \<noteq> ([] :: str)" by simp
  then show "search_products unicode_lower (Some [0x20]) MOCK_PRODUCTS =
     ([(''success'', VBool True),
       (''query'', VStr [0x20]),
       (''total'', VInt 6),
       (''products'', VProducts MOCK_PRODUCTS)], MOCK_PRODUCTS)"
    unfolding search_products_Some [OF \<open>[0x20] \<noteq> ([] :: str)\<close>] loop_space
    by (simp add: MOCK_PRODUCTS_def)
next
  show "\<forall>P \<in> set MOCK_PRODUCTS. str_in [0x20] (name P)"
    by (simp add: MOCK_PRODUCTS_def catalog_names ascii_def)
qed

theorem search_products_whitespace_query_witness:
  "[0x20, 0x20] \<noteq> ([] :: str) \<and>
   (\<forall>unicode_lower. search_products unicode_lower (Some [0x20, 0x20]) MOCK_PRODUCTS =
     ([(''success'', VBool True),
       (''query'', VStr [0x20, 0x20]),
       (''total'', VInt 0),
       (''products'', VProducts [])], MOCK_PRODUCTS))"
proof -
  have ne: "[0x20, 0x20] \<noteq> ([] :: str)" by simp
  have "search_products ul (Some [0x20, 0x20]) MOCK_PRODUCTS =
     ([(''success'', VBool True),
       (''query'', VStr [0x20, 0x20]),
       (''total'', VInt 0),
       (''products'', VProducts [])], MOCK_PRODUCTS)" for ul
  proof -
    from search_products_whitespace_query [of "[0x20, 0x20]" ul MOCK_PRODUCTS] ne
    have "search_products ul (Some [0x20, 0x20]) MOCK_PRODUCTS =
        ([(''success'', VBool True),
          (''query'', VStr [0x20, 0x20]),
          (''total'', VInt (int (length
             (filter (\<lambda>P. str_in (lower ul [0x20, 0x20]) (lower ul (name P)) \<or>
                           str_in (lower ul [0x20, 0x20]) (lower ul (description P)) \<or>
                           str_in (lower ul [0x20, 0x20]) (lower ul (category P)))
                MOCK_PRODUCTS)))),
          (''products'', VProducts
             (filter (\<lambda>P. str_in (lower ul [0x20, 0x20]) (lower ul (name P)) \<or>
                           str_in (lower ul [0x20, 0x20]) (lower ul (description P)) \<or>
                           str_in (lower ul [0x20, 0x20]) (lower ul (category P)))
                MOCK_PRODUCTS))],
         MOCK_PRODUCTS)"
      by blast
    moreover have "filter (\<lambda>P. str_in (lower ul [0x20, 0x20]) (lower ul (name P)) \<or>
                           str_in (lower ul [0x20, 0x20]) (lower ul (description P)) \<or>
                           str_in (lower ul [0x20, 0x20]) (lower ul (category P)))
                MOCK_PRODUCTS = []"
      using loop_two_spaces [of ul] unfolding search_loop_filter by simp
    ultimately show ?thesis by simp
  qed
  with ne show ?thesis by blast
qed

end
